theory Spec2Isabelle
  imports Complex_Main "HOL-Library.Log_Nat"
begin

section \<open>Numbers\<close>

text \<open>
  Every numeric value of \<^verbatim>\<open>script.js\<close> is a JavaScript Number, an IEEE-754 double. The
  development reads \<^verbatim>\<open>+\<close>, \<^verbatim>\<open>-\<close>, \<^verbatim>\<open>*\<close> and \<^verbatim>\<open>/\<close> as exact arithmetic on \<^typ>\<open>real\<close>, and
  \<^verbatim>\<open>Math.PI\<close> as \<^term>\<open>pi\<close>, wherever a property does not depend on rounding; so are the
  32-bit floats of vertex buffers and of the GPU. The animation
  tick is also given in double arithmetic, each operation rounded (section
  \<open>Double arithmetic\<close>): what it says about periodicity and about geometric decay
  depends on the rounding. A decimal literal of the source is written as the fraction it
  denotes (\<^verbatim>\<open>0.005\<close> as \<open>5 / 1000\<close>). Times are Numbers too: \<^verbatim>\<open>Date.now()\<close> and
  \<^verbatim>\<open>startTime\<close> are milliseconds. Two places where the exact reading would hide
  what JavaScript does are written out: the remainder operator \<^verbatim>\<open>%\<close>, which truncates
  towards zero, and the quotient of the window's dimensions, whose divisor can be zero.
\<close>

definition js_trunc :: "real \<Rightarrow> int" where
  \<comment> \<open>the integral part of a quotient, rounded towards zero\<close>
  "js_trunc q = (if 0 \<le> q then \<lfloor>q\<rfloor> else \<lceil>q\<rceil>)"

definition js_rem :: "real \<Rightarrow> real \<Rightarrow> real" where
  \<comment> \<open>\<^verbatim>\<open>a % n\<close>: the result takes the sign of the dividend. For \<open>n = 0\<close> JavaScript gives
      NaN; the program's only divisor is the literal 8000.\<close>
  "js_rem a n = a - n * of_int (js_trunc (a / n))"

datatype js_quot = Finite real | Infinity | NaN

definition js_div :: "nat \<Rightarrow> nat \<Rightarrow> js_quot" where
  \<comment> \<open>\<^verbatim>\<open>a / b\<close> for two non-negative integers, as for \<^verbatim>\<open>window.innerWidth / window.innerHeight\<close>\<close>
  "js_div a b =
     (if b \<noteq> 0 then Finite (real a / real b) else if a = 0 then NaN else Infinity)"

section \<open>Vectors and scene objects\<close>

record vec2 =
  ux :: real
  uy :: real

record vec3 =
  vx :: real
  vy :: real
  vz :: real

record vec4 =
  v4x :: real
  v4y :: real
  v4z :: real
  v4w :: real

text \<open>
  \<^verbatim>\<open>THREE.Object3D\<close>, with the fields the program reads or writes. \<open>rotation\<close> holds the
  Euler angles (order XYZ). A mesh and a camera are Object3Ds with more fields.
\<close>

record object3d =
  position :: vec3
  rotation :: vec3
  scale :: vec3
  renderOrder :: int
  visible :: bool

definition Object3D :: object3d where
  \<comment> \<open>\<^verbatim>\<open>new THREE.Object3D()\<close>\<close>
  "Object3D =
     \<lparr>position = \<lparr>vx = 0, vy = 0, vz = 0\<rparr>, rotation = \<lparr>vx = 0, vy = 0, vz = 0\<rparr>,
      scale = \<lparr>vx = 1, vy = 1, vz = 1\<rparr>, renderOrder = 0, visible = True\<rparr>"

type_synonym ref = nat

record mesh = object3d +
  geometry :: ref
  material :: ref

record perspective_camera = object3d +
  fov :: real
  aspect :: js_quot
  near :: real
  far :: real

section \<open>Settings, material and geometry\<close>

record cloudSettings =
  fogColor :: nat
  fogNear :: real
  fogFar :: real
  shaderPower :: real
  cloudOpacity :: real
  enableSecondLayer :: bool

definition cloudSettings :: cloudSettings where
  "cloudSettings =
     \<lparr>fogColor = 0x5ba0d0, fogNear = 100, fogFar = 2000, shaderPower = 15,
      cloudOpacity = 6 / 10, enableSecondLayer = True\<rparr>"

record fog =
  fog_color :: nat
  fog_near :: real
  fog_far :: real

text \<open>
  The uniforms of the cloud material. The type of the texture and of the colour is a
  parameter: the material holds a texture handle and a colour, the fragment shader reads
  a sampler and a \<^verbatim>\<open>vec3\<close>.
\<close>

record ('t, 'c) uniforms =
  u_map :: 't
  u_fogColor :: 'c
  u_fogNear :: real
  u_fogFar :: real
  u_shaderPower :: real
  u_cloudOpacity :: real

type_synonym texture = string

record shader_material =
  uniforms :: "(texture, nat) uniforms"
  depthWrite :: bool
  depthTest :: bool
  transparent :: bool

record geometry =
  positions :: "vec3 list"
  indices :: "nat list"


subsection \<open>Library primitives of three.js\<close>

text \<open>
  The program is a composition of calls into three.js, which is not part of the
  repository. The primitives that decide the shape of the cloud geometry are written
  out here after the library: \<^verbatim>\<open>PlaneGeometry\<close>, \<^verbatim>\<open>Quaternion.setFromEuler\<close>,
  \<^verbatim>\<open>Matrix4.compose\<close>, \<^verbatim>\<open>Vector3.applyMatrix4\<close>, \<^verbatim>\<open>BufferGeometry.applyMatrix4\<close> and
  \<^verbatim>\<open>BufferGeometryUtils.mergeGeometries\<close>. Of a geometry's attributes the vertex
  positions and the triangle index are kept; normals and texture coordinates are carried
  along by the library in the same way and no property below reads them.
\<close>

definition PlaneGeometry :: "real \<Rightarrow> real \<Rightarrow> geometry" where
  \<comment> \<open>Modelled from the spec: \<^verbatim>\<open>new THREE.PlaneGeometry(width, height)\<close> is library code absent
      from src/; one unsubdivided quad: four vertices in the plane \<open>z = 0\<close>, two triangles.\<close>
  "PlaneGeometry width height =
     (let width_half = width / 2; height_half = height / 2 in
      \<lparr>positions =
         [\<lparr>vx = - width_half, vy = height_half, vz = 0\<rparr>,
          \<lparr>vx = width_half, vy = height_half, vz = 0\<rparr>,
          \<lparr>vx = - width_half, vy = - height_half, vz = 0\<rparr>,
          \<lparr>vx = width_half, vy = - height_half, vz = 0\<rparr>],
       indices = [0, 2, 1, 2, 3, 1]\<rparr>)"

record quaternion =
  qx :: real
  qy :: real
  qz :: real
  qw :: real

definition setFromEuler :: "vec3 \<Rightarrow> quaternion" where
  \<comment> \<open>Modelled from the spec: \<^verbatim>\<open>Quaternion.setFromEuler\<close> (order XYZ) is library code absent
      from src/; it keeps an Object3D's quaternion in step with its \<open>rotation\<close>.\<close>
  "setFromEuler e =
     (let c1 = cos (vx e / 2); c2 = cos (vy e / 2); c3 = cos (vz e / 2);
          s1 = sin (vx e / 2); s2 = sin (vy e / 2); s3 = sin (vz e / 2) in
      \<lparr>qx = s1 * c2 * c3 + c1 * s2 * s3,
       qy = c1 * s2 * c3 - s1 * c2 * s3,
       qz = c1 * c2 * s3 + s1 * s2 * c3,
       qw = c1 * c2 * c3 - s1 * s2 * s3\<rparr>)"

text \<open>A \<^verbatim>\<open>Matrix4\<close>: the sixteen elements of the library's column-major array \<^verbatim>\<open>te\<close>.\<close>

record matrix4 =
  te0 :: real
  te1 :: real
  te2 :: real
  te3 :: real
  te4 :: real
  te5 :: real
  te6 :: real
  te7 :: real
  te8 :: real
  te9 :: real
  te10 :: real
  te11 :: real
  te12 :: real
  te13 :: real
  te14 :: real
  te15 :: real

definition compose :: "vec3 \<Rightarrow> quaternion \<Rightarrow> vec3 \<Rightarrow> matrix4" where
  \<comment> \<open>Modelled from the spec: \<^verbatim>\<open>Matrix4.compose(position, quaternion, scale)\<close> is library
      code absent from src/; translation times rotation times scale.\<close>
  "compose p q s =
     (let x = qx q; y = qy q; z = qz q; w = qw q;
          x2 = x + x; y2 = y + y; z2 = z + z;
          xx = x * x2; xy = x * y2; xz = x * z2;
          yy = y * y2; yz = y * z2; zz = z * z2;
          wx = w * x2; wy = w * y2; wz = w * z2;
          sx = vx s; sy = vy s; sz = vz s in
      \<lparr>te0 = (1 - (yy + zz)) * sx, te1 = (xy + wz) * sx, te2 = (xz - wy) * sx, te3 = 0,
       te4 = (xy - wz) * sy, te5 = (1 - (xx + zz)) * sy, te6 = (yz + wx) * sy, te7 = 0,
       te8 = (xz + wy) * sz, te9 = (yz - wx) * sz, te10 = (1 - (xx + yy)) * sz, te11 = 0,
       te12 = vx p, te13 = vy p, te14 = vz p, te15 = 1\<rparr>)"

definition updateMatrix :: "object3d \<Rightarrow> matrix4" where
  \<comment> \<open>Modelled from the spec: \<^verbatim>\<open>Object3D.updateMatrix()\<close> is library code absent from src/;
      the value it stores in \<^verbatim>\<open>planeObj.matrix\<close>.\<close>
  "updateMatrix obj = compose (position obj) (setFromEuler (rotation obj)) (scale obj)"

definition Vector3_applyMatrix4 :: "matrix4 \<Rightarrow> vec3 \<Rightarrow> vec3" where
  \<comment> \<open>Modelled from the spec: \<^verbatim>\<open>Vector3.applyMatrix4\<close> is library code absent from src/; the
      point times the matrix, with the perspective divide.\<close>
  "Vector3_applyMatrix4 m v =
     (let x = vx v; y = vy v; z = vz v;
          w = 1 / (te3 m * x + te7 m * y + te11 m * z + te15 m) in
      \<lparr>vx = (te0 m * x + te4 m * y + te8 m * z + te12 m) * w,
       vy = (te1 m * x + te5 m * y + te9 m * z + te13 m) * w,
       vz = (te2 m * x + te6 m * y + te10 m * z + te14 m) * w\<rparr>)"

definition applyMatrix4 :: "matrix4 \<Rightarrow> geometry \<Rightarrow> geometry" where
  \<comment> \<open>Modelled from the spec: \<^verbatim>\<open>BufferGeometry.applyMatrix4\<close> is library code absent from
      src/; it bakes the transform into every vertex and leaves the index alone.\<close>
  "applyMatrix4 m g = g\<lparr>positions := map (Vector3_applyMatrix4 m) (positions g)\<rparr>"

fun merge_attributes :: "nat \<Rightarrow> geometry list \<Rightarrow> vec3 list \<times> nat list" where
  "merge_attributes indexOffset [] = ([], [])"
| "merge_attributes indexOffset (g # gs) =
     (let (ps, js) = merge_attributes (indexOffset + length (positions g)) gs in
      (positions g @ ps, map (\<lambda>j. j + indexOffset) (indices g) @ js))"

definition mergeGeometries :: "geometry list \<Rightarrow> geometry option" where
  \<comment> \<open>Modelled from the spec: \<^verbatim>\<open>BufferGeometryUtils.mergeGeometries\<close> is library code absent
      from src/; the attributes are concatenated in order, nothing is deduplicated, and
      each geometry's index is shifted by the number of vertices before it. On an empty
      list the library fails (\<open>None\<close>).\<close>
  "mergeGeometries gs =
     (if gs = [] then None
      else Some (let (ps, js) = merge_attributes 0 gs in \<lparr>positions = ps, indices = js\<rparr>))"

section \<open>The module's state\<close>

record window =
  innerWidth :: nat
  innerHeight :: nat

record canvas2d =
  canvas_width :: nat
  canvas_height :: nat

record background =
  bg_canvas :: canvas2d
  bg_stops :: "(real \<times> string) list"
  backgroundSize :: string

text \<open>
  The module-level variables of \<^verbatim>\<open>script.js\<close>, and what the program leaves in the scene,
  the renderer and the document. Materials and geometries live in a store and are held
  by reference, as the objects of the program are; \<open>renders\<close> counts the calls of
  \<^verbatim>\<open>renderer.render\<close> and \<open>frames_requested\<close> those of \<^verbatim>\<open>requestAnimationFrame\<close>.
\<close>

record app =
  mouseX :: real
  mouseY :: real
  startTime :: real
  windowHalfX :: real
  windowHalfY :: real
  camera :: perspective_camera
  renderer_size :: "nat \<times> nat"
  renders :: nat
  frames_requested :: nat
  body_background :: "background option"
  fog :: "fog option"
  material_store :: "ref \<rightharpoonup> shader_material"
  geometry_store :: "ref \<rightharpoonup> geometry"
  next_ref :: ref
  cloudMaterial :: "ref option"
  cloudMesh :: "mesh option"
  cloudMeshA :: "mesh option"
  scene_children :: "mesh list"

definition create_app :: "window \<Rightarrow> real \<Rightarrow> app" where
  \<comment> \<open>the module-level initialisers, run at time \<open>now\<close> in a window\<close>
  "create_app window now =
     \<lparr>mouseX = 0, mouseY = 0, startTime = now,
      windowHalfX = real (innerWidth window) / 2,
      windowHalfY = real (innerHeight window) / 2,
      camera =
        \<lparr>position = \<lparr>vx = 0, vy = 0, vz = 6000\<rparr>, rotation = \<lparr>vx = 0, vy = 0, vz = 0\<rparr>,
         scale = \<lparr>vx = 1, vy = 1, vz = 1\<rparr>, renderOrder = 0, visible = True,
         fov = 30, aspect = js_div (innerWidth window) (innerHeight window),
         near = 1, far = 10000\<rparr>,
      renderer_size = (innerWidth window, innerHeight window),
      renders = 0, frames_requested = 0, body_background = None, fog = None,
      material_store = Map.empty, geometry_store = Map.empty, next_ref = 0,
      cloudMaterial = None, cloudMesh = None, cloudMeshA = None, scene_children = []\<rparr>"


section \<open>The cloud field\<close>

text \<open>
  \<^verbatim>\<open>Math.random()\<close> is read from a stream of draws \<open>rnd\<close> and a position in it: each call
  returns the draw at the position and moves one on. The stream is the seed.
\<close>

definition Math_random :: "(nat \<Rightarrow> real) \<Rightarrow> nat \<Rightarrow> real \<times> nat" where
  "Math_random rnd k = (rnd k, Suc k)"

definition place_plane :: "(nat \<Rightarrow> real) \<Rightarrow> nat \<Rightarrow> nat \<Rightarrow> object3d \<Rightarrow> object3d \<times> nat" where
  \<comment> \<open>the five assignments to \<^verbatim>\<open>planeObj\<close> in the body of the loop of \<^verbatim>\<open>createClouds\<close>, with
      the draws in the order JavaScript evaluates them\<close>
  "place_plane rnd k i planeObj =
     (let (r1, k) = Math_random rnd k;
          planeObj = planeObj\<lparr>position := (position planeObj)\<lparr>vx := r1 * 1000 - 500\<rparr>\<rparr>;
          (r2, k) = Math_random rnd k;
          (r3, k) = Math_random rnd k;
          planeObj = planeObj\<lparr>position := (position planeObj)\<lparr>vy := - r2 * r3 * 200 - 15\<rparr>\<rparr>;
          planeObj = planeObj\<lparr>position := (position planeObj)\<lparr>vz := real i\<rparr>\<rparr>;
          (r4, k) = Math_random rnd k;
          planeObj = planeObj\<lparr>rotation := (rotation planeObj)\<lparr>vz := r4 * pi\<rparr>\<rparr>;
          (r5, k) = Math_random rnd k;
          (r6, k) = Math_random rnd k;
          s = r5 * r6 * (15 / 10) + 5 / 10;
          planeObj = planeObj\<lparr>scale := (scale planeObj)\<lparr>vy := s\<rparr>\<rparr>;
          planeObj = planeObj\<lparr>scale := (scale planeObj)\<lparr>vx := s\<rparr>\<rparr>
      in (planeObj, k))"

function cloud_loop ::
  "(nat \<Rightarrow> real) \<Rightarrow> geometry \<Rightarrow> nat \<Rightarrow> nat \<Rightarrow> nat \<Rightarrow> object3d \<Rightarrow> geometry list \<Rightarrow> geometry list"
where
  \<comment> \<open>\<^verbatim>\<open>for (let i = 0; i < n; i++) { ... geometries.push(clonedPlaneGeo); }\<close>: \<open>k\<close> is the
      position in the stream of draws, \<open>planeObj\<close> the one object every iteration mutates\<close>
  "cloud_loop rnd planeGeo n i k planeObj geometries =
     (if i < n then
        (let (planeObj, k) = place_plane rnd k i planeObj;
             clonedPlaneGeo = applyMatrix4 (updateMatrix planeObj) planeGeo
         in cloud_loop rnd planeGeo n (Suc i) k planeObj (geometries @ [clonedPlaneGeo]))
      else geometries)"
  by pat_completeness auto
termination
  by (relation "measure (\<lambda>(rnd, planeGeo, n, i, k, planeObj, geometries). n - i)") auto

declare cloud_loop.simps [simp del]

definition cloud_planes :: "(nat \<Rightarrow> real) \<Rightarrow> geometry list" where
  \<comment> \<open>the array \<^verbatim>\<open>geometries\<close> when the loop of \<^verbatim>\<open>createClouds\<close> ends\<close>
  "cloud_planes rnd = cloud_loop rnd (PlaneGeometry 64 64) 8000 0 0 Object3D []"

definition placed_plane :: "(nat \<Rightarrow> real) \<Rightarrow> nat \<Rightarrow> object3d" where
  \<comment> \<open>\<^verbatim>\<open>planeObj\<close> as iteration \<open>i\<close> leaves it: the first \<open>i\<close> iterations have taken six
      draws each\<close>
  "placed_plane rnd i = fst (place_plane rnd (6 * i) i Object3D)"

definition untouched :: "object3d \<Rightarrow> bool" where
  \<comment> \<open>the fields of \<^verbatim>\<open>planeObj\<close> that the loop never assigns still have their initial values\<close>
  "untouched obj =
     (vx (rotation obj) = 0 \<and> vy (rotation obj) = 0 \<and> vz (scale obj) = 1
      \<and> renderOrder obj = 0 \<and> visible obj)"

definition Mesh :: "ref \<Rightarrow> ref \<Rightarrow> mesh" where
  \<comment> \<open>\<^verbatim>\<open>new THREE.Mesh(geometry, material)\<close>: an Object3D that holds the two references\<close>
  "Mesh g m =
     \<lparr>position = \<lparr>vx = 0, vy = 0, vz = 0\<rparr>, rotation = \<lparr>vx = 0, vy = 0, vz = 0\<rparr>,
      scale = \<lparr>vx = 1, vy = 1, vz = 1\<rparr>, renderOrder = 0, visible = True,
      geometry = g, material = m\<rparr>"

definition Mesh_clone :: "mesh \<Rightarrow> mesh" where
  \<comment> \<open>Modelled from the spec: \<^verbatim>\<open>Mesh.clone()\<close> is library code absent from src/; a new mesh
      made from the same geometry and material references, with the Object3D fields
      copied ("same geometry reused", "shared by reference").\<close>
  "Mesh_clone source =
     (Mesh (geometry source) (material source))
       \<lparr>position := position source, rotation := rotation source, scale := scale source,
        renderOrder := renderOrder source, visible := visible source\<rparr>"

definition createClouds :: "cloudSettings \<Rightarrow> texture \<Rightarrow> (nat \<Rightarrow> real) \<Rightarrow> app \<Rightarrow> app option" where
  \<comment> \<open>\<open>None\<close>: the merge failed and the exception left \<^verbatim>\<open>createClouds\<close>\<close>
  "createClouds settings cloudTexture rnd st =
     (let fog' = \<lparr>fog_color = fogColor settings, fog_near = fogNear settings,
                  fog_far = fogFar settings\<rparr>;
          st = st\<lparr>fog := Some fog'\<rparr>;
          cloudMaterial' = next_ref st;
          st = st\<lparr>material_store := (material_store st)(cloudMaterial' \<mapsto>
                 \<lparr>uniforms =
                    \<lparr>u_map = cloudTexture, u_fogColor = fog_color fog',
                     u_fogNear = fog_near fog', u_fogFar = fog_far fog',
                     u_shaderPower = shaderPower settings,
                     u_cloudOpacity = cloudOpacity settings\<rparr>,
                  depthWrite = False, depthTest = False, transparent = True\<rparr>),
               next_ref := Suc (next_ref st), cloudMaterial := Some cloudMaterial'\<rparr>
      in case mergeGeometries (cloud_planes rnd) of
           None \<Rightarrow> None
         | Some mergedCloudGeo \<Rightarrow>
             (let mergedRef = next_ref st;
                  st = st\<lparr>geometry_store := (geometry_store st)(mergedRef \<mapsto> mergedCloudGeo),
                          next_ref := Suc (next_ref st)\<rparr>;
                  cloudMesh' = Mesh mergedRef cloudMaterial';
                  cloudMesh' = cloudMesh'\<lparr>renderOrder := 2\<rparr>;
                  cloudMeshA' = Mesh_clone cloudMesh';
                  cloudMeshA' = cloudMeshA'\<lparr>position := (position cloudMeshA')\<lparr>vz := - 8000\<rparr>\<rparr>;
                  cloudMeshA' = cloudMeshA'\<lparr>renderOrder := 1\<rparr>;
                  cloudMeshA' = cloudMeshA'\<lparr>visible := enableSecondLayer settings\<rparr>
              in Some (st\<lparr>cloudMesh := Some cloudMesh', cloudMeshA := Some cloudMeshA',
                          scene_children := scene_children st @ [cloudMesh', cloudMeshA']\<rparr>)))"

definition set_uniforms ::
  "ref \<Rightarrow> ((texture, nat) uniforms \<Rightarrow> (texture, nat) uniforms) \<Rightarrow> app \<Rightarrow> app" where
  \<comment> \<open>an assignment to a uniform of the material object at reference \<open>r\<close>, as
      \<^verbatim>\<open>mesh.material.uniforms.cloudOpacity.value = v\<close> makes one: a write to the store\<close>
  "set_uniforms r f st =
     (case material_store st r of
        None \<Rightarrow> st
      | Some m \<Rightarrow> st\<lparr>material_store := (material_store st)(r \<mapsto> m\<lparr>uniforms := f (uniforms m)\<rparr>)\<rparr>)"

definition mesh_uniforms :: "app \<Rightarrow> mesh \<Rightarrow> (texture, nat) uniforms option" where
  \<comment> \<open>the uniforms read through a mesh: \<^verbatim>\<open>mesh.material.uniforms\<close>\<close>
  "mesh_uniforms st m = map_option uniforms (material_store st (material m))"

section \<open>Background, events and the animation tick\<close>

definition createBackground :: "window \<Rightarrow> app \<Rightarrow> app" where
  \<comment> \<open>a new canvas each call; \<^verbatim>\<open>renderer\<close>, \<^verbatim>\<open>scene\<close> and \<^verbatim>\<open>camera\<close> are objects, so the
      test before the render is true\<close>
  "createBackground window st =
     (let canvas = \<lparr>canvas_width = 32, canvas_height = innerHeight window\<rparr>;
          gradient = [(0, ''#87ceeb''), (3 / 10, ''#6bb6ff''), (7 / 10, ''#5ba0d0''),
                      (1, ''#4a90e2'')];
          st = st\<lparr>body_background :=
                   Some \<lparr>bg_canvas = canvas, bg_stops = gradient,
                         backgroundSize = ''32px 100%''\<rparr>\<rparr>
      in st\<lparr>renders := Suc (renders st)\<rparr>)"

record mouse_event =
  clientX :: real
  clientY :: real

record touch =
  pageX :: real
  pageY :: real

record touch_event =
  touches :: "touch list"
  defaultPrevented :: bool

definition onDocumentMouseMove :: "mouse_event \<Rightarrow> app \<Rightarrow> app" where
  "onDocumentMouseMove event st =
     (let st = st\<lparr>mouseX := (clientX event - windowHalfX st) * (5 / 100)\<rparr>
      in st\<lparr>mouseY := (clientY event - windowHalfY st) * (3 / 100)\<rparr>)"

definition onDocumentTouchMove :: "touch_event \<Rightarrow> app \<Rightarrow> touch_event \<times> app" where
  "onDocumentTouchMove event st =
     (let event = event\<lparr>defaultPrevented := True\<rparr> in
      case touches event of
        [t] \<Rightarrow>
          (let st = st\<lparr>mouseX := (pageX t - windowHalfX st) * (5 / 100)\<rparr>
           in (event, st\<lparr>mouseY := (pageY t - windowHalfY st) * (3 / 100)\<rparr>))
      | _ \<Rightarrow> (event, st))"

definition onWindowResize :: "window \<Rightarrow> app \<Rightarrow> app" where
  \<comment> \<open>\<^verbatim>\<open>camera.updateProjectionMatrix()\<close> recomputes a matrix from \<open>fov\<close>, \<open>aspect\<close>, \<open>near\<close> and
      \<open>far\<close>; it is derived data and is not stored in the model\<close>
  "onWindowResize window st =
     (let st = st\<lparr>windowHalfX := real (innerWidth window) / 2\<rparr>;
          st = st\<lparr>windowHalfY := real (innerHeight window) / 2\<rparr>;
          st = st\<lparr>camera := (camera st)\<lparr>aspect := js_div (innerWidth window) (innerHeight window)\<rparr>\<rparr>;
          st = st\<lparr>renderer_size := (innerWidth window, innerHeight window)\<rparr>
      in createBackground window st)"

definition animate :: "real \<Rightarrow> app \<Rightarrow> app" where
  \<comment> \<open>one tick at time \<open>now\<close> (the value of \<^verbatim>\<open>Date.now()\<close>); \<open>pos\<close> is the constant \<^verbatim>\<open>position\<close>\<close>
  "animate now st =
     (let st = st\<lparr>frames_requested := Suc (frames_requested st)\<rparr>;
          pos = js_rem ((now - startTime st) * (3 / 100)) 8000;
          cam = camera st;
          cam = cam\<lparr>position := (position cam)
                  \<lparr>vx := vx (position cam) + (mouseX st - vx (position cam)) * (5 / 1000)\<rparr>\<rparr>;
          cam = cam\<lparr>position := (position cam)
                  \<lparr>vy := vy (position cam) + (- mouseY st - vy (position cam)) * (5 / 1000)\<rparr>\<rparr>;
          cam = cam\<lparr>position := (position cam)\<lparr>vz := - pos + 8000\<rparr>\<rparr>;
          st = st\<lparr>camera := cam\<rparr>
      in st\<lparr>renders := Suc (renders st)\<rparr>)"

fun ticks :: "real list \<Rightarrow> app \<Rightarrow> app" where
  \<comment> \<open>successive ticks at the given times with no event between them\<close>
  "ticks [] st = st"
| "ticks (now # nows) st = ticks nows (animate now st)"

definition init :: "window \<Rightarrow> cloudSettings \<Rightarrow> texture \<Rightarrow> (nat \<Rightarrow> real) \<Rightarrow> real \<Rightarrow> app \<Rightarrow> app option" where
  \<comment> \<open>\<^verbatim>\<open>createBackground(); createClouds(); animate();\<close> with the first tick at time \<open>now\<close>\<close>
  "init window settings cloudTexture rnd now st =
     map_option (animate now) (createClouds settings cloudTexture rnd (createBackground window st))"

section \<open>The fragment shader\<close>

text \<open>
  The GLSL built-ins, after the language's definition of them: \<^verbatim>\<open>mix\<close>, \<^verbatim>\<open>clamp\<close>,
  \<^verbatim>\<open>smoothstep\<close> (undefined in GLSL when the first edge is not below the second) and
  \<^verbatim>\<open>pow\<close> (undefined in GLSL for a negative base).
\<close>

definition mix :: "real \<Rightarrow> real \<Rightarrow> real \<Rightarrow> real" where
  "mix x y a = x * (1 - a) + y * a"

definition clamp :: "real \<Rightarrow> real \<Rightarrow> real \<Rightarrow> real" where
  "clamp x lo hi = min (max x lo) hi"

definition smoothstep :: "real \<Rightarrow> real \<Rightarrow> real \<Rightarrow> real" where
  "smoothstep edge0 edge1 x =
     (let t = clamp ((x - edge0) / (edge1 - edge0)) 0 1 in t * t * (3 - 2 * t))"

definition pow :: "real \<Rightarrow> real \<Rightarrow> real" where
  "pow x y = x powr y"

type_synonym sampler2D = "vec2 \<Rightarrow> vec4"

definition fragmentShader :: "(sampler2D, vec3) uniforms \<Rightarrow> vec2 \<Rightarrow> vec4 \<Rightarrow> vec4" where
  \<comment> \<open>\<^verbatim>\<open>main\<close> of the fragment shader: from the uniforms, the varying \<^verbatim>\<open>vUv\<close> and
      \<^verbatim>\<open>gl_FragCoord\<close> to \<^verbatim>\<open>gl_FragColor\<close>; \<^verbatim>\<open>texture2D(map, vUv)\<close> is the sampler applied\<close>
  "fragmentShader u vUv gl_FragCoord =
     (let depth = v4z gl_FragCoord / v4w gl_FragCoord;
          fogFactor = smoothstep (u_fogNear u) (u_fogFar u) depth;
          texColor = u_map u vUv;
          texColor = texColor\<lparr>v4x := mix (v4x texColor) 1 (1 / 10),
                              v4y := mix (v4y texColor) 1 (1 / 10),
                              v4z := mix (v4z texColor) 1 (1 / 10)\<rparr>;
          gl_FragColor = texColor;
          gl_FragColor = gl_FragColor\<lparr>v4w := v4w gl_FragColor * pow (v4z gl_FragCoord) (u_shaderPower u)\<rparr>;
          fogged = \<lparr>v4x = vx (u_fogColor u), v4y = vy (u_fogColor u), v4z = vz (u_fogColor u),
                    v4w = v4w gl_FragColor\<rparr>;
          gl_FragColor = \<lparr>v4x = mix (v4x gl_FragColor) (v4x fogged) fogFactor,
                          v4y = mix (v4y gl_FragColor) (v4y fogged) fogFactor,
                          v4z = mix (v4z gl_FragColor) (v4z fogged) fogFactor,
                          v4w = mix (v4w gl_FragColor) (v4w fogged) fogFactor\<rparr>
      in gl_FragColor\<lparr>v4w := v4w gl_FragColor * u_cloudOpacity u\<rparr>)"


subsection \<open>The shader as the specification describes it\<close>

text \<open>
  The five steps the specification names, each a function of its own, and their
  composition in the order given. It is compared below with \<^const>\<open>fragmentShader\<close>, which
  follows the GLSL source line by line.
\<close>

definition sample_texture :: "(sampler2D, vec3) uniforms \<Rightarrow> vec2 \<Rightarrow> vec4" where
  "sample_texture u vUv = u_map u vUv"

definition lighten :: "vec4 \<Rightarrow> vec4" where
  \<comment> \<open>the colour blended 10% towards white; alpha kept\<close>
  "lighten c =
     \<lparr>v4x = v4x c + (1 - v4x c) * (1 / 10), v4y = v4y c + (1 - v4y c) * (1 / 10),
      v4z = v4z c + (1 - v4z c) * (1 / 10), v4w = v4w c\<rparr>"

definition depth_falloff :: "(sampler2D, vec3) uniforms \<Rightarrow> vec4 \<Rightarrow> vec4 \<Rightarrow> vec4" where
  \<comment> \<open>alpha times the screen-space depth raised to the exponent\<close>
  "depth_falloff u gl_FragCoord c =
     \<lparr>v4x = v4x c, v4y = v4y c, v4z = v4z c,
      v4w = v4w c * (v4z gl_FragCoord) powr (u_shaderPower u)\<rparr>"

definition fog_blend :: "(sampler2D, vec3) uniforms \<Rightarrow> vec4 \<Rightarrow> vec4 \<Rightarrow> vec4" where
  \<comment> \<open>the colour blended towards the fog colour by the smoothstep of the view-space depth
      between the near and far thresholds; the fog colour carries the fragment's own alpha\<close>
  "fog_blend u gl_FragCoord c =
     (let f = smoothstep (u_fogNear u) (u_fogFar u) (v4z gl_FragCoord / v4w gl_FragCoord) in
      \<lparr>v4x = v4x c + (vx (u_fogColor u) - v4x c) * f,
       v4y = v4y c + (vy (u_fogColor u) - v4y c) * f,
       v4z = v4z c + (vz (u_fogColor u) - v4z c) * f,
       v4w = v4w c + (v4w c - v4w c) * f\<rparr>)"

definition global_opacity :: "(sampler2D, vec3) uniforms \<Rightarrow> vec4 \<Rightarrow> vec4" where
  "global_opacity u c = \<lparr>v4x = v4x c, v4y = v4y c, v4z = v4z c, v4w = v4w c * u_cloudOpacity u\<rparr>"

definition spec_fragment :: "(sampler2D, vec3) uniforms \<Rightarrow> vec2 \<Rightarrow> vec4 \<Rightarrow> vec4" where
  "spec_fragment u vUv gl_FragCoord =
     global_opacity u
       (fog_blend u gl_FragCoord
         (depth_falloff u gl_FragCoord
           (lighten (sample_texture u vUv))))"

section \<open>Double arithmetic\<close>

text \<open>
  The result of an arithmetic operation of JavaScript is the exact result rounded to the
  nearest double, a tie going to the double whose last mantissa bit is 0. A double is an
  integer of at most 53 bits times a power of two, the exponent of the last bit being at
  least \<open>-1074\<close>. A result of magnitude \<open>2 ^ 1024\<close> or more, for which JavaScript gives
  an infinity, is outside this model: the statements about \<open>fl\<close> keep their operands
  within \<open>2 ^ 1000\<close>, as every time and every screen coordinate is.
\<close>

definition round_even :: "real \<Rightarrow> int" where
  \<comment> \<open>the nearest integer, a tie going to the even one\<close>
  "round_even y =
     (let f = \<lfloor>y\<rfloor>; r = y - of_int f in
      if r < 1 / 2 then f else if 1 / 2 < r then f + 1 else if even f then f else f + 1)"

definition ulp_exponent :: "real \<Rightarrow> int" where
  \<comment> \<open>the exponent of the last mantissa bit of the doubles around \<open>x\<close>: \<open>k - 52\<close> where
      \<open>2 ^ k \<le> \<bar>x\<bar> < 2 ^ (k + 1)\<close>, and \<open>-1074\<close> for the subnormal numbers and 0\<close>
  "ulp_exponent x = max (bitlen \<lfloor>\<bar>x\<bar> * 2 ^ 1074\<rfloor> - 1127) (- 1074)"

definition fl :: "real \<Rightarrow> real" where
  \<comment> \<open>the double nearest to \<open>x\<close>\<close>
  "fl x = of_int (round_even (x / 2 powi ulp_exponent x)) * 2 powi ulp_exponent x"




section \<open>Properties\<close>

subsection \<open>The remainder operator and one tick\<close>

lemma js_rem_range:
  assumes "0 \<le> a" and "0 < n"
  shows "0 \<le> js_rem a n" and "js_rem a n < n"
proof -
  have q: "0 \<le> a / n" using assms by simp
  have an: "a / n * n = a" using assms by simp
  have "of_int \<lfloor>a / n\<rfloor> * n \<le> a / n * n"
    using assms(2) by (intro mult_right_mono) simp_all
  with an have lo: "n * of_int \<lfloor>a / n\<rfloor> \<le> a"
    by (simp add: mult.commute)
  have "a / n < of_int \<lfloor>a / n\<rfloor> + 1" by linarith
  then have "a / n * n < (of_int \<lfloor>a / n\<rfloor> + 1) * n"
    using assms(2) by (intro mult_strict_right_mono)
  with an have hi: "a < n * of_int \<lfloor>a / n\<rfloor> + n"
    by (simp add: distrib_left mult.commute)
  from lo show "0 \<le> js_rem a n" using q by (simp add: js_rem_def js_trunc_def)
  from hi show "js_rem a n < n" using q by (simp add: js_rem_def js_trunc_def)
qed

text \<open>
  The bounds need a non-negative dividend: \<^verbatim>\<open>%\<close> truncates, so a negative dividend gives a
  negative remainder.
\<close>

lemma js_rem_negative: "js_rem (- 3 / 100) 8000 = - 3 / 100"
  by (simp add: js_rem_def js_trunc_def)

lemma animate_camera_z:
  "vz (position (camera (animate now st))) = 8000 - js_rem ((now - startTime st) * (3 / 100)) 8000"
  by (simp add: animate_def Let_def)

lemma animate_frame:
  "mouseX (animate now st) = mouseX st" "mouseY (animate now st) = mouseY st"
  "startTime (animate now st) = startTime st"
  by (simp_all add: animate_def Let_def)

lemma ticks_frame:
  "mouseX (ticks nows st) = mouseX st \<and> mouseY (ticks nows st) = mouseY st
     \<and> startTime (ticks nows st) = startTime st"
  by (induction nows arbitrary: st) (simp_all add: animate_frame)

lemma ticks_frame_start: "startTime (ticks nows st) = startTime st"
  using ticks_frame [of nows st] by simp

lemma ticks_snoc: "ticks (nows @ [now]) st = animate now (ticks nows st)"
  by (induction nows arbitrary: st) simp_all

subsection \<open>The loop of createClouds\<close>

lemma place_plane_eq:
  "place_plane rnd k i obj =
     (obj\<lparr>position := (position obj)\<lparr>vx := rnd k * 1000 - 500,
                                      vy := - rnd (k + 1) * rnd (k + 2) * 200 - 15,
                                      vz := real i\<rparr>,
          rotation := (rotation obj)\<lparr>vz := rnd (k + 3) * pi\<rparr>,
          scale := (scale obj)\<lparr>vy := rnd (k + 4) * rnd (k + 5) * (15 / 10) + 5 / 10,
                                vx := rnd (k + 4) * rnd (k + 5) * (15 / 10) + 5 / 10\<rparr>\<rparr>,
      k + 6)"
  by (simp add: place_plane_def Math_random_def Let_def eval_nat_numeral)

lemma place_plane_untouched:
  "untouched obj \<Longrightarrow> untouched (fst (place_plane rnd k i obj))"
  by (simp add: place_plane_eq untouched_def)

lemma untouched_Object3D: "untouched Object3D"
  by (simp add: untouched_def Object3D_def)

lemma vec3_eqI: "vx a = vx b \<Longrightarrow> vy a = vy b \<Longrightarrow> vz a = vz b \<Longrightarrow> a = (b::vec3)"
  by simp

lemma place_plane_forgets:
  assumes "untouched obj"
  shows "fst (place_plane rnd k i obj) = fst (place_plane rnd k i Object3D)"
proof -
  have "position (fst (place_plane rnd k i obj)) = position (fst (place_plane rnd k i Object3D))"
    by (rule vec3_eqI) (simp_all add: place_plane_eq)
  moreover have "rotation (fst (place_plane rnd k i obj)) = rotation (fst (place_plane rnd k i Object3D))"
    using assms by (intro vec3_eqI) (simp_all add: place_plane_eq untouched_def Object3D_def)
  moreover have "scale (fst (place_plane rnd k i obj)) = scale (fst (place_plane rnd k i Object3D))"
    using assms by (intro vec3_eqI) (simp_all add: place_plane_eq untouched_def Object3D_def)
  moreover have "renderOrder (fst (place_plane rnd k i obj)) = renderOrder (fst (place_plane rnd k i Object3D))"
    using assms by (simp add: place_plane_eq untouched_def Object3D_def)
  moreover have "visible (fst (place_plane rnd k i obj)) = visible (fst (place_plane rnd k i Object3D))"
    using assms by (simp add: place_plane_eq untouched_def Object3D_def)
  ultimately show ?thesis by simp
qed

lemma cloud_loop_eq:
  "untouched obj \<Longrightarrow> k = 6 * i \<Longrightarrow>
   cloud_loop rnd pg n i k obj gs =
     gs @ map (\<lambda>j. applyMatrix4 (updateMatrix (placed_plane rnd j)) pg) [i..<n]"
proof (induction rnd pg n i k obj gs rule: cloud_loop.induct)
  case (1 rnd pg n i k obj gs)
  show ?case
  proof (cases "i < n")
    case False
    then show ?thesis by (subst cloud_loop.simps) simp
  next
    case True
    obtain obj' k' where pp: "place_plane rnd k i obj = (obj', k')"
      by (cases "place_plane rnd k i obj")
    have k': "k' = 6 * Suc i" using pp "1.prems"(2) by (simp add: place_plane_eq)
    have obj': "obj' = placed_plane rnd i"
      using place_plane_forgets [OF "1.prems"(1), of rnd k i] pp "1.prems"(2)
      by (simp add: placed_plane_def)
    have u': "untouched obj'"
      using place_plane_untouched [OF "1.prems"(1), of rnd k i] pp by simp
    have IH: "cloud_loop rnd pg n (Suc i) k' obj' (gs @ [applyMatrix4 (updateMatrix obj') pg]) =
          (gs @ [applyMatrix4 (updateMatrix obj') pg]) @
          map (\<lambda>j. applyMatrix4 (updateMatrix (placed_plane rnd j)) pg) [Suc i..<n]"
      using "1.IH" [OF True pp [symmetric] refl refl u' k'] .
    have "cloud_loop rnd pg n i k obj gs =
          cloud_loop rnd pg n (Suc i) k' obj' (gs @ [applyMatrix4 (updateMatrix obj') pg])"
      using True pp by (subst cloud_loop.simps) simp
    also note IH
    finally show ?thesis using True obj' by (simp add: upt_conv_Cons)
  qed
qed

lemma cloud_planes_eq:
  "cloud_planes rnd =
     map (\<lambda>j. applyMatrix4 (updateMatrix (placed_plane rnd j)) (PlaneGeometry 64 64)) [0..<8000]"
  unfolding cloud_planes_def
  using cloud_loop_eq [OF untouched_Object3D, of 0 0 rnd "PlaneGeometry 64 64" 8000 "[]"]
  by simp

lemma cloud_planes_nth:
  "i < 8000 \<Longrightarrow>
   cloud_planes rnd ! i = applyMatrix4 (updateMatrix (placed_plane rnd i)) (PlaneGeometry 64 64)"
  by (simp add: cloud_planes_eq)

lemma cloud_planes_length: "length (cloud_planes rnd) = 8000"
  by (simp add: cloud_planes_eq)

lemma placed_plane_fields:
  "position (placed_plane rnd i) =
     \<lparr>vx = rnd (6 * i) * 1000 - 500,
      vy = - rnd (6 * i + 1) * rnd (6 * i + 2) * 200 - 15, vz = real i\<rparr>"
  "rotation (placed_plane rnd i) = \<lparr>vx = 0, vy = 0, vz = rnd (6 * i + 3) * pi\<rparr>"
  "scale (placed_plane rnd i) =
     \<lparr>vx = rnd (6 * i + 4) * rnd (6 * i + 5) * (15 / 10) + 5 / 10,
      vy = rnd (6 * i + 4) * rnd (6 * i + 5) * (15 / 10) + 5 / 10, vz = 1\<rparr>"
  by (simp_all add: placed_plane_def place_plane_eq Object3D_def)

lemma baked_z:
  "vz (Vector3_applyMatrix4 (updateMatrix (placed_plane rnd i)) v) = vz v + real i"
  by (simp add: Vector3_applyMatrix4_def updateMatrix_def compose_def setFromEuler_def
      placed_plane_fields Let_def)

lemma baked_plane_z:
  "map vz (positions (applyMatrix4 (updateMatrix (placed_plane rnd i)) (PlaneGeometry w h))) =
     replicate 4 (real i)"
  by (simp add: applyMatrix4_def PlaneGeometry_def Let_def baked_z eval_nat_numeral)

lemma cloud_planes_z:
  "map (\<lambda>g. map vz (positions g)) (cloud_planes rnd) = map (\<lambda>i. replicate 4 (real i)) [0..<8000]"
  by (simp add: cloud_planes_eq baked_plane_z comp_def)

lemma cloud_planes_nth_z:
  "i < 8000 \<Longrightarrow> map vz (positions (cloud_planes rnd ! i)) = replicate 4 (real i)"
  by (simp add: cloud_planes_eq baked_plane_z)

lemma still_plane:
  "positions (applyMatrix4 (updateMatrix (placed_plane (\<lambda>k. 0) i)) (PlaneGeometry 64 64)) =
     [\<lparr>vx = - 516, vy = 1, vz = real i\<rparr>, \<lparr>vx = - 484, vy = 1, vz = real i\<rparr>,
      \<lparr>vx = - 516, vy = - 31, vz = real i\<rparr>, \<lparr>vx = - 484, vy = - 31, vz = real i\<rparr>]"
  by (simp add: applyMatrix4_def PlaneGeometry_def Vector3_applyMatrix4_def updateMatrix_def
      compose_def setFromEuler_def placed_plane_fields Let_def)

lemma unit_product:
  fixes u v :: real
  assumes "0 \<le> u" "u < 1" "0 \<le> v" "v < 1"
  shows "0 \<le> u * v" and "u * v < 1"
proof -
  show "0 \<le> u * v" using assms by simp
  have "u * v \<le> u * 1" using assms by (intro mult_left_mono) simp_all
  then show "u * v < 1" using assms by simp
qed

subsection \<open>Merging\<close>

lemma merge_attributes_lengths:
  "length (fst (merge_attributes off gs)) = sum_list (map (\<lambda>g. length (positions g)) gs)"
  "length (snd (merge_attributes off gs)) = sum_list (map (\<lambda>g. length (indices g)) gs)"
  by (induction gs arbitrary: off) (simp_all add: split_beta Let_def)

lemma merge_attributes_positions:
  "fst (merge_attributes off gs) = concat (map positions gs)"
  by (induction gs arbitrary: off) (simp_all add: split_beta Let_def)

lemma sum_list_const: "sum_list (map (\<lambda>x. c) xs) = length xs * (c::nat)"
  by (induction xs) simp_all

lemma cloud_planes_sizes:
  "map (\<lambda>g. length (positions g)) (cloud_planes rnd) = map (\<lambda>i. 4) [0..<8000]"
  "map (\<lambda>g. length (indices g)) (cloud_planes rnd) = map (\<lambda>i. 6) [0..<8000]"
  by (simp_all add: cloud_planes_eq applyMatrix4_def PlaneGeometry_def Let_def comp_def)

lemma merged_cloud_geometry:
  "\<exists>g. mergeGeometries (cloud_planes rnd) = Some g
       \<and> positions g = concat (map positions (cloud_planes rnd))
       \<and> length (positions g) = 32000 \<and> length (indices g) = 48000"
proof -
  have ne: "cloud_planes rnd \<noteq> []"
    using cloud_planes_length [of rnd] by auto
  obtain ps js where m: "merge_attributes 0 (cloud_planes rnd) = (ps, js)"
    by (cases "merge_attributes 0 (cloud_planes rnd)")
  have "length ps = 32000"
    using merge_attributes_lengths(1) [of 0 "cloud_planes rnd"] m
    by (simp add: cloud_planes_sizes sum_list_const)
  moreover have "length js = 48000"
    using merge_attributes_lengths(2) [of 0 "cloud_planes rnd"] m
    by (simp add: cloud_planes_sizes sum_list_const)
  moreover have "ps = concat (map positions (cloud_planes rnd))"
    using merge_attributes_positions [of 0 "cloud_planes rnd"] m by simp
  ultimately show ?thesis using ne m by (simp add: mergeGeometries_def)
qed

subsection \<open>The shader's blend\<close>

lemma mix_towards: "mix x y a = x + (y - x) * a"
  by (simp add: mix_def algebra_simps)

lemma fragment_alpha:
  "v4w (fragmentShader u vUv gl_FragCoord) =
     v4w (u_map u vUv) * pow (v4z gl_FragCoord) (u_shaderPower u) * u_cloudOpacity u"
  by (simp add: fragmentShader_def mix_towards Let_def)

subsection \<open>Rounding to a double\<close>



lemma round_even_up: "round_even y = \<lfloor>y\<rfloor> + 1 \<Longrightarrow> 1 / 2 \<le> y - of_int \<lfloor>y\<rfloor>"
  by (simp add: round_even_def Let_def split: if_splits)

lemma round_even_down: "round_even y = \<lfloor>y\<rfloor> \<Longrightarrow> y - of_int \<lfloor>y\<rfloor> \<le> 1 / 2"
  by (simp add: round_even_def Let_def split: if_splits)



lemma round_even_0 [simp]: "round_even 0 = 0"
  by (simp add: round_even_def)



lemma two_powi_pos [simp]: "0 < (2::real) powi k"
  by (simp add: power_int_def)







lemma ulp_exponent_0 [simp]: "ulp_exponent 0 = - 1074"
  by (simp add: ulp_exponent_def)

lemma ulp_exponent_uminus [simp]: "ulp_exponent (- x) = ulp_exponent x"
  by (simp add: ulp_exponent_def)





lemma fl_0 [simp]: "fl 0 = 0"
  by (simp add: fl_def)














subsection \<open>Doubles of the tick\<close>























subsection \<open>The tick in double arithmetic\<close>
















section \<open>The claims\<close>

text \<open>
  C1. For every generation index \<open>i\<close> from 0 to 7999, the \<open>z\<close> coordinate baked into the
  vertices of the \<open>i\<close>-th quad equals \<open>i\<close>: the loop produces 8000 quads, \<^verbatim>\<open>planeObj\<close> has
  \<open>z = i\<close> in iteration \<open>i\<close>, each of the four vertices of quad \<open>i\<close> has \<open>z = i\<close>, so the
  depths are 0, ..., 7999 and grow strictly with the index; the merged geometry keeps
  them, four equal values per quad in the order of generation.
\<close>

theorem quad_depth_is_index:
  "length (cloud_planes rnd) = 8000
   \<and> (\<forall>i. vz (position (placed_plane rnd i)) = real i)
   \<and> map (\<lambda>g. map vz (positions g)) (cloud_planes rnd) =
        map (\<lambda>i. replicate 4 (real i)) [0..<8000]
   \<and> (\<forall>i<8000. map vz (positions (cloud_planes rnd ! i)) = [real i, real i, real i, real i])
   \<and> (\<forall>i j. i < j \<and> j < 8000 \<longrightarrow>
         (\<forall>a\<in>set (positions (cloud_planes rnd ! i)).
            \<forall>b\<in>set (positions (cloud_planes rnd ! j)). vz a < vz b))
   \<and> (\<exists>g. mergeGeometries (cloud_planes rnd) = Some g
          \<and> map vz (positions g) = concat (map (\<lambda>i. replicate 4 (real i)) [0..<8000]))"
proof -
  have nth: "map vz (positions (cloud_planes rnd ! i)) = [real i, real i, real i, real i]"
    if "i < 8000" for i
    using cloud_planes_nth_z [OF that, of rnd] by (simp add: eval_nat_numeral)
  have mem: "vz a = real i" if "i < 8000" "a \<in> set (positions (cloud_planes rnd ! i))" for i a
  proof -
    from that(2) have "vz a \<in> set (map vz (positions (cloud_planes rnd ! i)))" by simp
    then show ?thesis unfolding nth [OF that(1)] by simp
  qed
  have incr: "vz a < vz b"
    if "i < j" "j < 8000" "a \<in> set (positions (cloud_planes rnd ! i))"
      "b \<in> set (positions (cloud_planes rnd ! j))" for i j a b
  proof -
    have "vz a = real i" using mem [of i a] that by simp
    moreover have "vz b = real j" using mem [of j b] that by simp
    ultimately show ?thesis using that(1) by simp
  qed
  obtain g where g: "mergeGeometries (cloud_planes rnd) = Some g"
    "positions g = concat (map positions (cloud_planes rnd))"
    using merged_cloud_geometry [of rnd] by blast
  have "map vz (positions g) = concat (map (\<lambda>g. map vz (positions g)) (cloud_planes rnd))"
    by (simp add: g(2) map_concat comp_def)
  then have mz: "map vz (positions g) = concat (map (\<lambda>i. replicate 4 (real i)) [0..<8000])"
    by (simp only: cloud_planes_z)
  have c2: "\<forall>i. vz (position (placed_plane rnd i)) = real i"
    by (simp add: placed_plane_fields)
  have c3: "\<forall>i<8000. map vz (positions (cloud_planes rnd ! i)) = [real i, real i, real i, real i]"
    using nth by blast
  have c4: "\<forall>i j. i < j \<and> j < 8000 \<longrightarrow>
         (\<forall>a\<in>set (positions (cloud_planes rnd ! i)).
            \<forall>b\<in>set (positions (cloud_planes rnd ! j)). vz a < vz b)"
    using incr by blast
  have c5: "\<exists>g. mergeGeometries (cloud_planes rnd) = Some g
          \<and> map vz (positions g) = concat (map (\<lambda>i. replicate 4 (real i)) [0..<8000])"
    using g(1) mz by blast
  from cloud_planes_length [of rnd] c2 cloud_planes_z [of rnd] c3 c4 c5 show ?thesis
    by blast
qed

text \<open>
  With every draw 0 the quads are not rotated and have scale 1/2: quad 3 and quad 5 are
  the same square at depths 3 and 5.
\<close>

theorem quad_depth_is_index_witness:
  "(3::nat) < 5 \<and> (5::nat) < 8000
   \<and> positions (cloud_planes (\<lambda>k. 0) ! 3) =
       [\<lparr>vx = - 516, vy = 1, vz = 3\<rparr>, \<lparr>vx = - 484, vy = 1, vz = 3\<rparr>,
        \<lparr>vx = - 516, vy = - 31, vz = 3\<rparr>, \<lparr>vx = - 484, vy = - 31, vz = 3\<rparr>]
   \<and> map vz (positions (cloud_planes (\<lambda>k. 0) ! 3)) = [3, 3, 3, 3]
   \<and> map vz (positions (cloud_planes (\<lambda>k. 0) ! 5)) = [5, 5, 5, 5]
   \<and> length (cloud_planes (\<lambda>k. 0)) = 8000"
  using quad_depth_is_index [of "\<lambda>k. 0"]
  by (simp add: cloud_planes_nth still_plane)







text \<open>
  C4. For every generated quad, as a function of the draws (six per quad, in the order
  taken, each in \<open>[0, 1)\<close>): \<open>x = u * 1000 - 500\<close>, in \<open>[-500, 500)\<close>;
  \<open>y = - (u * v * 200) - 15\<close>, in \<open>(-215, -15]\<close>; the rotation is about \<open>z\<close> only, by
  \<open>u * pi\<close>, in \<open>[0, pi)\<close>; the scale is the same in \<open>x\<close> and \<open>y\<close>,
  \<open>u * v * 1.5 + 0.5\<close>, in \<open>[0.5, 2)\<close>. The quad is the plane with this transform applied.
\<close>

theorem quad_parameters:
  assumes "\<forall>k. 0 \<le> rnd k \<and> rnd k < 1" and "i < 8000"
  shows "cloud_planes rnd ! i =
           applyMatrix4 (updateMatrix (placed_plane rnd i)) (PlaneGeometry 64 64)
     \<and> vx (position (placed_plane rnd i)) = rnd (6 * i) * 1000 - 500
     \<and> - 500 \<le> vx (position (placed_plane rnd i)) \<and> vx (position (placed_plane rnd i)) < 500
     \<and> vy (position (placed_plane rnd i)) = - (rnd (6 * i + 1) * rnd (6 * i + 2) * 200) - 15
     \<and> - 215 < vy (position (placed_plane rnd i)) \<and> vy (position (placed_plane rnd i)) \<le> - 15
     \<and> rotation (placed_plane rnd i) = \<lparr>vx = 0, vy = 0, vz = rnd (6 * i + 3) * pi\<rparr>
     \<and> 0 \<le> vz (rotation (placed_plane rnd i)) \<and> vz (rotation (placed_plane rnd i)) < pi
     \<and> vx (scale (placed_plane rnd i)) = rnd (6 * i + 4) * rnd (6 * i + 5) * (15 / 10) + 5 / 10
     \<and> vy (scale (placed_plane rnd i)) = vx (scale (placed_plane rnd i))
     \<and> vz (scale (placed_plane rnd i)) = 1
     \<and> 5 / 10 \<le> vx (scale (placed_plane rnd i)) \<and> vx (scale (placed_plane rnd i)) < 2"
proof -
  have r: "0 \<le> rnd k" "rnd k < 1" for k using assms(1) by simp_all
  have nth: "cloud_planes rnd ! i =
           applyMatrix4 (updateMatrix (placed_plane rnd i)) (PlaneGeometry 64 64)"
    using assms(2) by (simp add: cloud_planes_eq)
  have x: "- 500 \<le> rnd (6 * i) * 1000 - 500" "rnd (6 * i) * 1000 - 500 < 500"
    using r [of "6 * i"] by simp_all
  have y: "0 \<le> rnd (6 * i + 1) * rnd (6 * i + 2)" "rnd (6 * i + 1) * rnd (6 * i + 2) < 1"
    using unit_product [OF r r] by simp_all
  have s: "0 \<le> rnd (6 * i + 4) * rnd (6 * i + 5)" "rnd (6 * i + 4) * rnd (6 * i + 5) < 1"
    using unit_product [OF r r] by simp_all
  have rot: "0 \<le> rnd (6 * i + 3) * pi" "rnd (6 * i + 3) * pi < pi"
    using r [of "6 * i + 3"] by simp_all
  show ?thesis
    using nth x y s rot by (simp add: placed_plane_fields)
qed

theorem quad_parameters_witness:
  "(\<forall>k::nat. (0::real) \<le> 0 \<and> (0::real) < 1) \<and> (3::nat) < 8000
   \<and> position (placed_plane (\<lambda>k. 0) 3) = \<lparr>vx = - 500, vy = - 15, vz = 3\<rparr>
   \<and> rotation (placed_plane (\<lambda>k. 0) 3) = \<lparr>vx = 0, vy = 0, vz = 0\<rparr>
   \<and> scale (placed_plane (\<lambda>k. 0) 3) = \<lparr>vx = 1 / 2, vy = 1 / 2, vz = 1\<rparr>
   \<and> positions (cloud_planes (\<lambda>k. 0) ! 3) =
       [\<lparr>vx = - 516, vy = 1, vz = 3\<rparr>, \<lparr>vx = - 484, vy = 1, vz = 3\<rparr>,
        \<lparr>vx = - 516, vy = - 31, vz = 3\<rparr>, \<lparr>vx = - 484, vy = - 31, vz = 3\<rparr>]"
  using quad_parameters [of "\<lambda>k. 0" 3]
  by (simp add: placed_plane_fields still_plane)

text \<open>
  C5. For every stream of draws, the merged cloud geometry that \<^verbatim>\<open>createClouds\<close> gives to
  the cloud mesh has exactly \<open>4 * 8000 = 32000\<close> vertices and \<open>2 * 8000 = 16000\<close>
  triangles (three index entries each).
\<close>

theorem merged_vertex_count:
  "\<exists>st' m g. createClouds settings cloudTexture rnd st = Some st'
      \<and> cloudMesh st' = Some m \<and> geometry_store st' (geometry m) = Some g
      \<and> mergeGeometries (cloud_planes rnd) = Some g
      \<and> length (positions g) = 4 * 8000 \<and> length (indices g) = 3 * (2 * 8000)"
proof -
  obtain g where g: "mergeGeometries (cloud_planes rnd) = Some g"
    "length (positions g) = 32000" "length (indices g) = 48000"
    using merged_cloud_geometry [of rnd] by blast
  show ?thesis using g by (simp add: createClouds_def Let_def Mesh_def)
qed

text \<open>
  C6. For every fragment the output of the shader is the composition, in this order, of:
  sampling the texture at the interpolated UV; blending the colour 10% towards white;
  multiplying alpha by the screen-space depth raised to \<open>shaderPower\<close>; blending towards
  the fog colour by the smoothstep of the view-space depth between \<open>fogNear\<close> and
  \<open>fogFar\<close>; multiplying alpha by \<open>cloudOpacity\<close>.
\<close>

theorem fragment_pipeline:
  "fragmentShader u vUv gl_FragCoord = spec_fragment u vUv gl_FragCoord"
  by (simp add: fragmentShader_def spec_fragment_def global_opacity_def fog_blend_def
      depth_falloff_def lighten_def sample_texture_def mix_towards pow_def Let_def)

text \<open>
  C7. After \<^verbatim>\<open>createClouds\<close> the second mesh holds the same geometry reference and the same
  material reference as the first, both allocated; it lies at \<open>z = -8000\<close>, has the lower
  \<open>renderOrder\<close>, and is visible exactly when \<open>enableSecondLayer\<close> is set. A write to a
  uniform of the material, through either mesh, is read identically through both.
\<close>

theorem second_layer_shares:
  "\<exists>st' m ma. createClouds settings cloudTexture rnd st = Some st'
      \<and> cloudMesh st' = Some m \<and> cloudMeshA st' = Some ma
      \<and> geometry ma = geometry m \<and> material ma = material m
      \<and> material_store st' (material m) \<noteq> None
      \<and> geometry_store st' (geometry m) \<noteq> None
      \<and> vz (position ma) = - 8000 \<and> vz (position m) = 0
      \<and> renderOrder ma < renderOrder m
      \<and> visible ma = enableSecondLayer settings
      \<and> (\<forall>f. mesh_uniforms (set_uniforms (material m) f st') ma
              = mesh_uniforms (set_uniforms (material m) f st') m)
      \<and> (\<forall>f. mesh_uniforms (set_uniforms (material ma) f st') m
              = map_option f (mesh_uniforms st' m))"
proof -
  obtain g where g: "mergeGeometries (cloud_planes rnd) = Some g"
    using merged_cloud_geometry [of rnd] by blast
  show ?thesis using g
    by (simp add: createClouds_def Let_def Mesh_def Mesh_clone_def mesh_uniforms_def
        set_uniforms_def)
qed

text \<open>
  C8. The resize handler is idempotent: in a window of fixed dimensions a second call
  leaves the camera's aspect ratio, the two window-half scalars and the background (a
  canvas of width 32 and of the window's height) as the first call set them; the calls
  differ in the count of renders only.
\<close>

theorem resize_idempotent:
  "aspect (camera (onWindowResize w (onWindowResize w st))) = aspect (camera (onWindowResize w st))
   \<and> windowHalfX (onWindowResize w (onWindowResize w st)) = windowHalfX (onWindowResize w st)
   \<and> windowHalfY (onWindowResize w (onWindowResize w st)) = windowHalfY (onWindowResize w st)
   \<and> body_background (onWindowResize w (onWindowResize w st)) = body_background (onWindowResize w st)
   \<and> map_option bg_canvas (body_background (onWindowResize w st)) =
        Some \<lparr>canvas_width = 32, canvas_height = innerHeight w\<rparr>
   \<and> aspect (camera (onWindowResize w st)) = js_div (innerWidth w) (innerHeight w)
   \<and> windowHalfX (onWindowResize w st) = real (innerWidth w) / 2
   \<and> windowHalfY (onWindowResize w st) = real (innerHeight w) / 2
   \<and> onWindowResize w (onWindowResize w st) =
        (onWindowResize w st)\<lparr>renders := Suc (renders (onWindowResize w st))\<rparr>"
  by (simp add: onWindowResize_def createBackground_def Let_def)

text \<open>
  C9. A touch-move event whose number of touches is not 1 leaves the state, and so both
  pointer-target scalars, unchanged. A touch-move event with exactly one touch, and a
  pointer-move event, overwrite both scalars with the event's position relative to the
  window's centre, scaled by 0.05 and 0.03; the new values do not depend on the old.
\<close>

theorem pointer_target_update:
  "(length (touches ev) \<noteq> 1 \<longrightarrow> snd (onDocumentTouchMove ev st) = st)
   \<and> (touches ev = [t] \<longrightarrow>
        snd (onDocumentTouchMove ev st) =
          st\<lparr>mouseX := (pageX t - windowHalfX st) * (5 / 100),
             mouseY := (pageY t - windowHalfY st) * (3 / 100)\<rparr>)
   \<and> onDocumentMouseMove me st =
        st\<lparr>mouseX := (clientX me - windowHalfX st) * (5 / 100),
           mouseY := (clientY me - windowHalfY st) * (3 / 100)\<rparr>
   \<and> defaultPrevented (fst (onDocumentTouchMove ev st))"
  by (cases "touches ev"; cases "tl (touches ev)")
     (auto simp add: onDocumentTouchMove_def onDocumentMouseMove_def Let_def split: list.splits)

theorem pointer_target_update_witness:
  "length (touches \<lparr>touches = [\<lparr>pageX = 500, pageY = 400\<rparr>, \<lparr>pageX = 10, pageY = 10\<rparr>],
                    defaultPrevented = False\<rparr>) \<noteq> 1
   \<and> snd (onDocumentTouchMove
            \<lparr>touches = [\<lparr>pageX = 500, pageY = 400\<rparr>, \<lparr>pageX = 10, pageY = 10\<rparr>],
             defaultPrevented = False\<rparr>
            (create_app \<lparr>innerWidth = 800, innerHeight = 600\<rparr> 0))
       = create_app \<lparr>innerWidth = 800, innerHeight = 600\<rparr> 0
   \<and> touches \<lparr>touches = [\<lparr>pageX = 500, pageY = 400\<rparr>], defaultPrevented = False\<rparr>
       = [\<lparr>pageX = 500, pageY = 400\<rparr>]
   \<and> mouseX (snd (onDocumentTouchMove
            \<lparr>touches = [\<lparr>pageX = 500, pageY = 400\<rparr>], defaultPrevented = False\<rparr>
            (create_app \<lparr>innerWidth = 800, innerHeight = 600\<rparr> 0))) = 5
   \<and> mouseY (snd (onDocumentTouchMove
            \<lparr>touches = [\<lparr>pageX = 500, pageY = 400\<rparr>], defaultPrevented = False\<rparr>
            (create_app \<lparr>innerWidth = 800, innerHeight = 600\<rparr> 0))) = 3"
  using pointer_target_update
      [of "\<lparr>touches = [\<lparr>pageX = 500, pageY = 400\<rparr>, \<lparr>pageX = 10, pageY = 10\<rparr>],
            defaultPrevented = False\<rparr>"
          "create_app \<lparr>innerWidth = 800, innerHeight = 600\<rparr> 0"]
    pointer_target_update
      [of "\<lparr>touches = [\<lparr>pageX = 500, pageY = 400\<rparr>], defaultPrevented = False\<rparr>"
          "create_app \<lparr>innerWidth = 800, innerHeight = 600\<rparr> 0"
          "\<lparr>pageX = 500, pageY = 400\<rparr>"]
  by (simp add: create_app_def)

text \<open>
  C10. After a tick at a time not before \<open>startTime\<close> the camera's \<open>z\<close> is in \<open>(0, 8000]\<close>,
  whatever the pointer did and however many ticks came before, although the camera is
  created at \<open>z = 6000\<close>.
\<close>

theorem camera_depth_range:
  assumes "startTime st \<le> now"
  shows "0 < vz (position (camera (animate now st)))
     \<and> vz (position (camera (animate now st))) \<le> 8000
     \<and> 0 < vz (position (camera (ticks (nows @ [now]) st)))
     \<and> vz (position (camera (ticks (nows @ [now]) st))) \<le> 8000
     \<and> vz (position (camera (create_app window t0))) = 6000"
proof -
  have range: "0 < vz (position (camera (animate now s))) \<and>
      vz (position (camera (animate now s))) \<le> 8000" if "startTime s \<le> now" for s
  proof -
    have a: "0 \<le> (now - startTime s) * (3 / 100)" using that by simp
    from js_rem_range [OF a, of 8000] show ?thesis
      by (simp add: animate_camera_z)
  qed
  have "startTime (ticks nows st) \<le> now"
    using assms by (simp add: ticks_frame_start)
  from range [OF this] range [OF assms] show ?thesis
    by (simp add: ticks_snoc create_app_def)
qed

theorem camera_depth_range_witness:
  "startTime (create_app \<lparr>innerWidth = 800, innerHeight = 600\<rparr> 0) \<le> 1000
   \<and> vz (position (camera (animate 1000 (create_app \<lparr>innerWidth = 800, innerHeight = 600\<rparr> 0))))
       = 7970
   \<and> vz (position (camera (ticks ([16, 500] @ [1000])
         (create_app \<lparr>innerWidth = 800, innerHeight = 600\<rparr> 0)))) = 7970
   \<and> 0 < vz (position (camera (ticks ([16, 500] @ [1000])
         (create_app \<lparr>innerWidth = 800, innerHeight = 600\<rparr> 0))))
   \<and> vz (position (camera (ticks ([16, 500] @ [1000])
         (create_app \<lparr>innerWidth = 800, innerHeight = 600\<rparr> 0)))) \<le> 8000"
proof -
  let ?st = "create_app \<lparr>innerWidth = 800, innerHeight = 600\<rparr> 0"
  have h: "startTime ?st \<le> 1000" by (simp add: create_app_def)
  have z: "vz (position (camera (animate 1000 ?st))) = 7970"
    by (simp add: animate_camera_z create_app_def js_rem_def js_trunc_def)
  have z': "vz (position (camera (ticks ([16, 500] @ [1000]) ?st))) = 7970"
    by (simp add: animate_camera_z animate_frame create_app_def js_rem_def js_trunc_def)
  from camera_depth_range [OF h, of "[16, 500]"] h z z' show ?thesis by simp
qed

end
